theory Spec2Isabelle
  imports Complex_Main "HOL-Library.Sublist" "HOL-Library.AList"
begin

section \<open>ELLIE fibre positions: a model of \<^verbatim>\<open>ELLIE_fibre_positions.py\<close>\<close>

text \<open>
  The script computes the install positions of TELLIE fibre plates from a table of hex-cell
  coordinates, compares them with the positions recorded in the database, and prepares
  new database entries.

  Conventions of the model.
  \<^item> Python floats are modelled as \<^typ>\<open>real\<close>: the geometry is the exact one, without
    rounding error, infinities or NaN.
  \<^item> An exception is a value \<open>Inl e\<close> of a sum type; the first exception ends the function,
    as in Python.
  \<^item> The coordinate file is the list of rows that \<^verbatim>\<open>csv.reader\<close> yields for it (each row a
    list of strings, the header row included).
  \<^item> Python's \<^verbatim>\<open>float()\<close> and \<^verbatim>\<open>int()\<close> on strings are parameters \<open>flt\<close> and \<open>pint\<close>
    (\<open>None\<close> where Python raises \<^verbatim>\<open>ValueError\<close>); the RAT database tables are parameters
    too.
  \<^item> \<^verbatim>\<open>ROOT.TVector3\<close> is modelled after ROOT's implementation: \<^verbatim>\<open>SetMag\<close> leaves a vector
    of magnitude zero unchanged (ROOT only prints a warning), and \<^verbatim>\<open>Angle\<close> returns 0 when
    one of the vectors is zero and clamps the cosine to \<open>[-1, 1]\<close>.
\<close>

subsection \<open>Errors\<close>

datatype error = NameError | IndexError | KeyError | ValueError | DBError

definition ebind :: "error + 'a \<Rightarrow> ('a \<Rightarrow> error + 'b) \<Rightarrow> error + 'b" where
  "ebind m f = (case m of Inl e \<Rightarrow> Inl e | Inr x \<Rightarrow> f x)"

subsection \<open>Three-vectors (\<^verbatim>\<open>ROOT.TVector3\<close>)\<close>

datatype TVector3 = TVector3 (fX: real) (fY: real) (fZ: real)

definition vadd :: "TVector3 \<Rightarrow> TVector3 \<Rightarrow> TVector3" where
  "vadd a b = TVector3 (fX a + fX b) (fY a + fY b) (fZ a + fZ b)"

definition vsub :: "TVector3 \<Rightarrow> TVector3 \<Rightarrow> TVector3" where
  "vsub a b = TVector3 (fX a - fX b) (fY a - fY b) (fZ a - fZ b)"

definition vscale :: "TVector3 \<Rightarrow> real \<Rightarrow> TVector3" where
  "vscale a k = TVector3 (fX a * k) (fY a * k) (fZ a * k)"

definition Dot :: "TVector3 \<Rightarrow> TVector3 \<Rightarrow> real" where
  "Dot a b = fX a * fX b + fY a * fY b + fZ a * fZ b"

definition Cross :: "TVector3 \<Rightarrow> TVector3 \<Rightarrow> TVector3" where
  "Cross a b = TVector3 (fY a * fZ b - fY b * fZ a)
                        (fZ a * fX b - fZ b * fX a)
                        (fX a * fY b - fX b * fY a)"

definition Mag2 :: "TVector3 \<Rightarrow> real" where
  "Mag2 a = fX a * fX a + fY a * fY a + fZ a * fZ a"

definition Mag :: "TVector3 \<Rightarrow> real" where
  "Mag a = sqrt (Mag2 a)"

definition SetMag :: "TVector3 \<Rightarrow> real \<Rightarrow> TVector3" where
  "SetMag a ma =
     (let factor = Mag a
      in if factor = 0 then a
         else TVector3 (fX a * (ma / factor)) (fY a * (ma / factor)) (fZ a * (ma / factor)))"

definition Angle :: "TVector3 \<Rightarrow> TVector3 \<Rightarrow> real" where
  "Angle a q =
     (let ptot2 = Mag2 a * Mag2 q
      in if ptot2 \<le> 0 then 0
         else let arg = Dot a q / sqrt ptot2;
                  arg = (if arg > 1 then 1 else arg);
                  arg = (if arg < - 1 then - 1 else arg)
              in arccos arg)"

subsection \<open>The coordinate table: \<^verbatim>\<open>get_pmt_coordinates\<close>\<close>

type_synonym row = "string list"

text \<open>\<^verbatim>\<open>float(row[i])\<close>: \<^verbatim>\<open>IndexError\<close> for a short row, \<^verbatim>\<open>ValueError\<close> for a field that is
  not a number.\<close>

definition float_at :: "(string \<Rightarrow> real option) \<Rightarrow> row \<Rightarrow> nat \<Rightarrow> error + real" where
  "float_at flt r i =
     (if i < length r
      then (case flt (r ! i) of None \<Rightarrow> Inl ValueError | Some x \<Rightarrow> Inr x)
      else Inl IndexError)"

text \<open>\<^verbatim>\<open>float(row[3]), float(row[4]), float(row[5])\<close>, evaluated left to right.\<close>

definition row_xyz :: "(string \<Rightarrow> real option) \<Rightarrow> row \<Rightarrow> error + TVector3" where
  "row_xyz flt r =
     ebind (float_at flt r 3) (\<lambda>x.
     ebind (float_at flt r 4) (\<lambda>y.
     ebind (float_at flt r 5) (\<lambda>z. Inr (TVector3 x y z))))"

text \<open>\<^verbatim>\<open>filter(None, row)\<close>: the row without its empty strings.\<close>

definition nonempty_fields :: "row \<Rightarrow> row" where
  "nonempty_fields r = filter (\<lambda>s. s \<noteq> []) r"

text \<open>
  The first loop over the rows. The state is the pair of \<^verbatim>\<open>(host_vec, panel_name)\<close> and
  \<^verbatim>\<open>neighbour_vec\<close>, each \<open>None\<close> while the variable is unbound. A later matching row
  overwrites an earlier one.
\<close>

fun find_cells ::
  "(string \<Rightarrow> real option) \<Rightarrow> string \<Rightarrow> string \<Rightarrow> row list \<Rightarrow>
   (TVector3 \<times> string) option \<times> TVector3 option \<Rightarrow>
   error + ((TVector3 \<times> string) option \<times> TVector3 option)" where
  "find_cells flt host_hex neighbour_hex [] st = Inr st"
| "find_cells flt host_hex neighbour_hex (r # rs) (h, n) =
     (if r = [] then find_cells flt host_hex neighbour_hex rs (h, n)
      else let row = nonempty_fields r
           in if length row \<le> 1 then Inl IndexError
              else
                ebind (if take 4 (row ! 1) = host_hex
                       then ebind (row_xyz flt row) (\<lambda>host_vec.
                              if 6 < length row then Inr (Some (host_vec, take 4 (row ! 6)))
                              else Inl IndexError)
                       else Inr h) (\<lambda>h'.
                ebind (if take 4 (row ! 1) = neighbour_hex
                       then ebind (row_xyz flt row) (\<lambda>neighbour_vec. Inr (Some neighbour_vec))
                       else Inr n) (\<lambda>n'.
                find_cells flt host_hex neighbour_hex rs (h', n'))))"

text \<open>
  The second loop: all cells of the panel, a dictionary from the cell index
  \<^verbatim>\<open>int(row[6][-2:])\<close> to the coordinates. The dictionary is an association list with
  distinct keys, so that its length is Python's \<^verbatim>\<open>len\<close>. The panel name is \<open>None\<close> when
  the variable is unbound.
\<close>

fun panel_cells ::
  "(string \<Rightarrow> real option) \<Rightarrow> (string \<Rightarrow> int option) \<Rightarrow> string option \<Rightarrow> row list \<Rightarrow>
   (int \<times> TVector3) list \<Rightarrow> error + (int \<times> TVector3) list" where
  "panel_cells flt pint panel_name [] panel_pmts = Inr panel_pmts"
| "panel_cells flt pint panel_name (r # rs) panel_pmts =
     (if r = [] then panel_cells flt pint panel_name rs panel_pmts
      else let row = nonempty_fields r
           in if length row \<le> 6 then Inl IndexError
              else (case panel_name of
                      None \<Rightarrow> Inl NameError
                    | Some name \<Rightarrow>
                        if take 4 (row ! 6) = name
                        then ebind (row_xyz flt row) (\<lambda>xyz.
                               case pint (drop (length (row ! 6) - 2) (row ! 6)) of
                                 None \<Rightarrow> Inl ValueError
                               | Some k \<Rightarrow>
                                   panel_cells flt pint panel_name rs (AList.update k xyz panel_pmts))
                        else panel_cells flt pint panel_name rs panel_pmts))"

text \<open>The central PMT of the panel: key 10 of a panel of more than 9 cells, else key 4.\<close>

definition central_pmt :: "(int \<times> TVector3) list \<Rightarrow> error + TVector3" where
  "central_pmt panel_pmts =
     (case map_of panel_pmts (if length panel_pmts > 9 then 10 else 4) of
        None \<Rightarrow> Inl KeyError
      | Some c \<Rightarrow> Inr c)"

definition get_pmt_coordinates ::
  "(string \<Rightarrow> real option) \<Rightarrow> (string \<Rightarrow> int option) \<Rightarrow> row list \<Rightarrow> string \<Rightarrow> string \<Rightarrow>
   error + (TVector3 \<times> TVector3 \<times> TVector3 \<times> int)" where
  "get_pmt_coordinates flt pint rows host_hex neighbour_hex0 =
     (let neighbour_hex = (if sublist ''none'' neighbour_hex0 then host_hex else neighbour_hex0)
      in ebind (find_cells flt host_hex neighbour_hex (drop 1 rows) (None, None)) (\<lambda>(h, n).
         ebind (case n of
                  Some v \<Rightarrow> Inr v
                | None \<Rightarrow> (case h of None \<Rightarrow> Inl NameError | Some (host_vec, _) \<Rightarrow> Inr host_vec))
               (\<lambda>neighbour_vec.
         ebind (panel_cells flt pint (map_option snd h) (drop 1 rows) []) (\<lambda>panel_pmts.
         ebind (central_pmt panel_pmts) (\<lambda>central_vec.
         case h of
           None \<Rightarrow> Inl NameError
         | Some (host_vec, panel_name) \<Rightarrow>
             (case pint (drop 1 panel_name) of
                None \<Rightarrow> Inl ValueError
              | Some p \<Rightarrow> Inr (central_vec, host_vec, neighbour_vec, p)))))))"

subsection \<open>The plate position: \<^verbatim>\<open>calc_fibre_placement\<close>\<close>

text \<open>The hex cell and plate parameters, in centimetres.\<close>

definition hex_size :: real where
  "hex_size = 17.05"

definition plate_height :: real where
  "plate_height = 0.3 + 0.22"

definition hex_radius :: real where
  "hex_radius = hex_size * cos (30 * (pi / 180))"

definition fibre_separation :: real where
  "fibre_separation = 0.51"

text \<open>The table \<^verbatim>\<open>PANELINFO\<close> of the RAT database: the panel numbers and the components of
  the panels' pointing vectors.\<close>

record panel_info =
  panel_number :: "int list"
  panel_u :: "real list"
  panel_v :: "real list"
  panel_w :: "real list"

text \<open>\<^verbatim>\<open>list.index\<close>: the first position of the value, \<^verbatim>\<open>ValueError\<close> when it is absent.\<close>

fun list_index :: "int list \<Rightarrow> int \<Rightarrow> error + nat" where
  "list_index [] a = Inl ValueError"
| "list_index (x # xs) a =
     (if x = a then Inr 0 else ebind (list_index xs a) (\<lambda>i. Inr (Suc i)))"

definition array_at :: "real list \<Rightarrow> nat \<Rightarrow> error + real" where
  "array_at xs i = (if i < length xs then Inr (xs ! i) else Inl IndexError)"

text \<open>The pointing vector of the panel, as read from \<^verbatim>\<open>PANELINFO\<close>, before \<^verbatim>\<open>SetMag(1.)\<close>.\<close>

definition panel_vector :: "panel_info \<Rightarrow> int \<Rightarrow> error + TVector3" where
  "panel_vector tab panel_name =
     ebind (list_index (panel_number tab) panel_name) (\<lambda>index.
     ebind (array_at (panel_u tab) index) (\<lambda>u.
     ebind (array_at (panel_v tab) index) (\<lambda>v.
     ebind (array_at (panel_w tab) index) (\<lambda>w. Inr (TVector3 u v w)))))"

text \<open>The local variables of \<^verbatim>\<open>calc_fibre_placement\<close>, as functions of the vectors they are
  computed from.\<close>

definition cent_to_neig_unit :: "TVector3 \<Rightarrow> TVector3 \<Rightarrow> TVector3" where
  "cent_to_neig_unit vec_from_centre neighbour_vec = SetMag (vsub neighbour_vec vec_from_centre) 1"

definition plate_vec :: "TVector3 \<Rightarrow> TVector3 \<Rightarrow> TVector3 \<Rightarrow> TVector3" where
  "plate_vec vec_from_centre host_vec neighbour_vec =
     vadd host_vec (vscale (cent_to_neig_unit vec_from_centre neighbour_vec) (hex_radius + plate_height))"

definition curve_correction :: "TVector3 \<Rightarrow> TVector3 \<Rightarrow> TVector3 \<Rightarrow> TVector3 \<Rightarrow> TVector3" where
  "curve_correction vec_from_centre host_vec neighbour_vec vec_to_centre =
     SetMag (Cross (vsub (plate_vec vec_from_centre host_vec neighbour_vec) host_vec) vec_to_centre) 1"

definition positionA :: "TVector3 \<Rightarrow> TVector3 \<Rightarrow> TVector3 \<Rightarrow> TVector3 \<Rightarrow> TVector3" where
  "positionA vec_from_centre host_vec neighbour_vec vec_to_centre =
     vadd (plate_vec vec_from_centre host_vec neighbour_vec)
          (vscale (curve_correction vec_from_centre host_vec neighbour_vec vec_to_centre) fibre_separation)"

definition positionB :: "TVector3 \<Rightarrow> TVector3 \<Rightarrow> TVector3 \<Rightarrow> TVector3 \<Rightarrow> TVector3" where
  "positionB vec_from_centre host_vec neighbour_vec vec_to_centre =
     vsub (plate_vec vec_from_centre host_vec neighbour_vec)
          (vscale (curve_correction vec_from_centre host_vec neighbour_vec vec_to_centre) fibre_separation)"

text \<open>
  The function itself. The checks \<^verbatim>\<open>da\<close>, \<^verbatim>\<open>db\<close>, \<^verbatim>\<open>aa\<close> and \<^verbatim>\<open>ab\<close> that the source computes
  after the positions are never used (their report is commented out) and cannot raise,
  so they are left out.
\<close>

definition calc_fibre_placement ::
  "(string \<Rightarrow> real option) \<Rightarrow> (string \<Rightarrow> int option) \<Rightarrow> panel_info \<Rightarrow> row list \<Rightarrow>
   string \<Rightarrow> string \<Rightarrow> error + (TVector3 \<times> TVector3)" where
  "calc_fibre_placement flt pint tab rows host_hex neighbour_hex =
     ebind (get_pmt_coordinates flt pint rows host_hex neighbour_hex)
       (\<lambda>(vec_from_centre, host_vec, neighbour_vec, panel_name).
     ebind (panel_vector tab panel_name) (\<lambda>pointing.
       let vec_to_centre = SetMag pointing 1
       in Inr (positionA vec_from_centre host_vec neighbour_vec vec_to_centre,
               positionB vec_from_centre host_vec neighbour_vec vec_to_centre)))"

subsection \<open>The pointing angle: \<^verbatim>\<open>get_pointing_angle\<close>\<close>

text \<open>
  What the script prints and writes. A line is kept as its kind and the values it shows,
  not as formatted text.
\<close>

datatype event =
    Hashes
  | Skipping string
  | FibreName string
  | HostNeighbour string string
  | Database real real real
  | Calculated real real real
  | NoReference string
  | SaveAs string "(string \<times> int) list"

text \<open>
  A table of fibre entries: the value of a field of a fibre's entry, \<open>None\<close> where
  \<^verbatim>\<open>GetD\<close> (or the access to the entry) raises.
\<close>

type_synonym fibre_db = "string \<Rightarrow> string \<Rightarrow> real option"

text \<open>The three fields read into a vector inside the \<^verbatim>\<open>try\<close> block.\<close>

definition db_vector :: "fibre_db \<Rightarrow> string \<Rightarrow> string \<Rightarrow> string \<Rightarrow> string \<Rightarrow> TVector3 option" where
  "db_vector db fibre a b c =
     (case db fibre a of None \<Rightarrow> None | Some x \<Rightarrow>
     (case db fibre b of None \<Rightarrow> None | Some y \<Rightarrow>
     (case db fibre c of None \<Rightarrow> None | Some z \<Rightarrow> Some (TVector3 x y z))))"

text \<open>
  When a field is missing the exception is caught, a line is printed, and the
  \<^verbatim>\<open>return\<close> raises on the unbound variable. The result is the printed lines and the value
  or exception.
\<close>

definition get_pointing_angle :: "fibre_db \<Rightarrow> string \<Rightarrow> event list \<times> (error + real)" where
  "get_pointing_angle db fibre =
     (case db_vector db fibre ''x'' ''y'' ''z'' of
        None \<Rightarrow> ([NoReference fibre], Inl NameError)
      | Some central_vector \<Rightarrow>
          (case db_vector db fibre ''u'' ''v'' ''w'' of
             None \<Rightarrow> ([NoReference fibre], Inl NameError)
           | Some pointing_vector \<Rightarrow>
               ([], Inr (180 - Angle central_vector pointing_vector * (180 / pi)))))"

subsection \<open>The comparison with the database: \<^verbatim>\<open>compare_position_calculations\<close>\<close>

text \<open>
  The body of the loop for one fibre: the lines printed, and the exception that ends the
  run, if any. \<open>None\<close> is the normal end of the iteration, also after \<^verbatim>\<open>continue\<close>.
\<close>

definition compare_fibre ::
  "(string \<Rightarrow> real option) \<Rightarrow> (string \<Rightarrow> int option) \<Rightarrow> panel_info \<Rightarrow> fibre_db \<Rightarrow>
   (string \<rightharpoonup> string) \<Rightarrow> (string \<rightharpoonup> string) \<Rightarrow> row list \<Rightarrow> string \<Rightarrow>
   event list \<times> error option" where
  "compare_fibre flt pint tab db pmt_hex neighbour_hex rows fibre =
     (case pmt_hex fibre of None \<Rightarrow> ([], Some KeyError) | Some host \<Rightarrow>
     (case neighbour_hex fibre of None \<Rightarrow> ([], Some KeyError) | Some neighbour \<Rightarrow>
     (case calc_fibre_placement flt pint tab rows host neighbour of
        Inl e \<Rightarrow> ([], Some e)
      | Inr (posA, posB) \<Rightarrow>
     (case db fibre ''x'' of
        None \<Rightarrow> ([Hashes, Skipping fibre], None)
      | Some x \<Rightarrow>
          if fibre = [] then ([], Some IndexError)
          else
            let pos = (if last fibre = CHR ''B'' then posB else posA);
                diff = x / 10 - fX pos
            in if \<bar>diff\<bar> > 1
               then (case db fibre ''y'' of
                       None \<Rightarrow> ([Hashes, FibreName fibre, HostNeighbour host neighbour], Some DBError)
                     | Some y \<Rightarrow>
                    (case db fibre ''z'' of
                       None \<Rightarrow> ([Hashes, FibreName fibre, HostNeighbour host neighbour], Some DBError)
                     | Some z \<Rightarrow>
                         ([Hashes, FibreName fibre, HostNeighbour host neighbour,
                           Database (x / 10) (y / 10) (z / 10),
                           Calculated (fX pos) (fY pos) (fZ pos)], None)))
               else ([], None)))))"

fun compare_position_calculations ::
  "(string \<Rightarrow> real option) \<Rightarrow> (string \<Rightarrow> int option) \<Rightarrow> panel_info \<Rightarrow> fibre_db \<Rightarrow>
   string list \<Rightarrow> (string \<rightharpoonup> string) \<Rightarrow> (string \<rightharpoonup> string) \<Rightarrow> row list \<Rightarrow>
   event list \<times> error option" where
  "compare_position_calculations flt pint tab db [] pmt_hex neighbour_hex rows = ([], None)"
| "compare_position_calculations flt pint tab db (fibre # fibres) pmt_hex neighbour_hex rows =
     (case compare_fibre flt pint tab db pmt_hex neighbour_hex rows fibre of
        (out, Some e) \<Rightarrow> (out, Some e)
      | (out, None) \<Rightarrow>
          (case compare_position_calculations flt pint tab db fibres pmt_hex neighbour_hex rows of
             (out', r) \<Rightarrow> (out @ out', r)))"

subsection \<open>The new database entries: \<^verbatim>\<open>make_new_db_files\<close>\<close>

text \<open>\<^verbatim>\<open>int(round(x, -1))\<close>: Python 2 rounds to the nearest multiple of ten, a tie away from
  zero.\<close>

definition round_tens :: "real \<Rightarrow> int" where
  "round_tens x = (if 0 \<le> x then \<lfloor>x / 10 + 1 / 2\<rfloor> * 10 else - (\<lfloor>- x / 10 + 1 / 2\<rfloor> * 10))"

text \<open>
  The body of the loop for one fibre. \<open>nodes\<close> is the global dictionary of the script.
  A written file is recorded as its fibre and the fields set with \<^verbatim>\<open>SetI\<close>, in the order of
  the calls.
\<close>

definition new_db_file ::
  "(string \<rightharpoonup> int) \<Rightarrow> fibre_db \<Rightarrow> string \<Rightarrow> event list \<times> error option" where
  "new_db_file nodes db fibre =
     (let (out, angle) =
            (if take 2 fibre = ''FT'' then ([], Some 0)
             else (case get_pointing_angle db fibre of
                     (out, Inl e) \<Rightarrow> (out, None)
                   | (out, Inr a) \<Rightarrow> (out, Some (round_tens a))))
      in case angle of
           None \<Rightarrow> (out, None)
         | Some angle \<Rightarrow>
             (case nodes fibre of
                None \<Rightarrow> (out, Some KeyError)
              | Some node \<Rightarrow>
                  (out @ [SaveAs fibre [(''psup_pannel'', node), (''pointing_angle'', angle),
                                         (''fibre_status'', 0)]], None)))"

fun make_new_db_files ::
  "(string \<rightharpoonup> int) \<Rightarrow> fibre_db \<Rightarrow> string list \<Rightarrow> event list \<times> error option" where
  "make_new_db_files nodes db [] = ([], None)"
| "make_new_db_files nodes db (fibre # fibres) =
     (case new_db_file nodes db fibre of
        (out, Some e) \<Rightarrow> (out, Some e)
      | (out, None) \<Rightarrow>
          (case make_new_db_files nodes db fibres of (out', r) \<Rightarrow> (out @ out', r)))"

subsection \<open>The plate vector in the words of the specification\<close>

text \<open>
  The specification describes the plate vector as the host vector plus the unit vector
  from the central vector to the neighbour vector, scaled by the hex radius plus the plate
  height, with a hex size of 17.05 cm, a hex radius of the hex size times the cosine of 30
  degrees, and a plate height of 0.52 cm. The two definitions below say that, to be compared
  with \<open>plate_vec\<close> above. The unit vector is the difference divided by its length; it
  is only meant for two different points.
\<close>

definition spec_unit_vector :: "TVector3 \<Rightarrow> TVector3 \<Rightarrow> TVector3" where
  "spec_unit_vector a b = vscale (vsub b a) (1 / Mag (vsub b a))"

definition spec_plate_vec :: "TVector3 \<Rightarrow> TVector3 \<Rightarrow> TVector3 \<Rightarrow> TVector3" where
  "spec_plate_vec central_vector host_vector neighbour_vector =
     vadd host_vector
       (vscale (spec_unit_vector central_vector neighbour_vector) (17.05 * cos (pi / 6) + 0.52))"

subsection \<open>Cells listed in the coordinate table\<close>

text \<open>
  A cell identifier has a match in the coordinate table when some row after the header
  has it as the first four characters of its second non-empty field: the test of the first
  loop of \<^verbatim>\<open>get_pmt_coordinates\<close>.
\<close>

definition cell_listed :: "row list \<Rightarrow> string \<Rightarrow> bool" where
  "cell_listed rows hex =
     list_ex (\<lambda>r. r \<noteq> [] \<and> 1 < length (nonempty_fields r) \<and> take 4 (nonempty_fields r ! 1) = hex)
       (drop 1 rows)"

subsection \<open>Example inputs\<close>

text \<open>
  A coordinate table with one panel of two cells (the blank line and the empty field are
  skipped by the script), the readings of its number fields, a \<^verbatim>\<open>PANELINFO\<close> table with
  that panel, and a fibre database with three entries: \<^verbatim>\<open>FS001\<close> points back along its
  position vector, \<^verbatim>\<open>FS002\<close> points along it, and \<^verbatim>\<open>FT001B\<close> has a recorded position
  only (in millimetres).
\<close>

definition example_flt :: "string \<Rightarrow> real option" where
  "example_flt = map_of [(''100.0'', 100), (''0.0'', 0), (''1.0'', 1)]"

definition example_pint :: "string \<Rightarrow> int option" where
  "example_pint =
     map_of [(''01'', 1), (''02'', 2), (''03'', 3), (''04'', 4), (''05'', 5), (''06'', 6),
             (''07'', 7), (''08'', 8), (''09'', 9), (''10'', 10), (''001'', 1), (''002'', 2)]"

definition example_rows :: "row list" where
  "example_rows =
     [[''Index'', ''Cell'', ''Type'', ''x'', ''y'', ''z'', ''Panel''],
      [''1'', ''S001'', ''a'', ''100.0'', ''0.0'', ''0.0'', ''P001-04''],
      [],
      [''2'', ''S002'', [], ''a'', ''100.0'', ''1.0'', ''0.0'', ''P001-05'']]"

definition example_panels :: panel_info where
  "example_panels = \<lparr>panel_number = [1], panel_u = [1], panel_v = [0], panel_w = [0]\<rparr>"

definition example_db :: fibre_db where
  "example_db fibre field =
     (if fibre = ''FS001''
      then map_of [(''x'', 1), (''y'', 0), (''z'', 0), (''u'', - 1), (''v'', 0), (''w'', 0)] field
      else if fibre = ''FS002''
      then map_of [(''x'', 1), (''y'', 0), (''z'', 0), (''u'', 1), (''v'', 0), (''w'', 0)] field
      else if fibre = ''FT001B''
      then map_of [(''x'', 1020), (''y'', 10), (''z'', 0)] field
      else None)"

definition example_nodes :: "string \<rightharpoonup> int" where
  "example_nodes = [''FT001A'' \<mapsto> 7, ''FS001'' \<mapsto> 8]"

text \<open>
  The host and neighbour cells of two fibres (the host cell of \<^verbatim>\<open>FS001\<close> is not in the
  table), and a second coordinate table, with a panel of ten cells.
\<close>

definition example_pmt_hex :: "string \<rightharpoonup> string" where
  "example_pmt_hex = [''FS001'' \<mapsto> ''S009'', ''FT001B'' \<mapsto> ''S002'']"

definition example_neighbour_hex :: "string \<rightharpoonup> string" where
  "example_neighbour_hex = [''FS001'' \<mapsto> ''S001'', ''FT001B'' \<mapsto> ''none'']"

definition example_rows10 :: "row list" where
  "example_rows10 =
     [[''Index'', ''Cell'', ''Type'', ''x'', ''y'', ''z'', ''Panel''],
      [''1'', ''T001'', ''a'', ''1.0'', ''1.0'', ''1.0'', ''P002-01''],
      [''2'', ''T002'', ''a'', ''1.0'', ''1.0'', ''1.0'', ''P002-02''],
      [''3'', ''T003'', ''a'', ''1.0'', ''1.0'', ''1.0'', ''P002-03''],
      [''4'', ''T004'', ''a'', ''0.0'', ''0.0'', ''0.0'', ''P002-04''],
      [''5'', ''T005'', ''a'', ''1.0'', ''1.0'', ''1.0'', ''P002-05''],
      [''6'', ''T006'', ''a'', ''1.0'', ''1.0'', ''1.0'', ''P002-06''],
      [''7'', ''T007'', ''a'', ''1.0'', ''1.0'', ''1.0'', ''P002-07''],
      [''8'', ''T008'', ''a'', ''1.0'', ''1.0'', ''1.0'', ''P002-08''],
      [''9'', ''T009'', ''a'', ''1.0'', ''1.0'', ''1.0'', ''P002-09''],
      [''10'', ''T010'', ''a'', ''100.0'', ''1.0'', ''0.0'', ''P002-10'']]"

text \<open>A second fibre database, in which the recorded position of \<^verbatim>\<open>FT001B\<close> is within a
  centimetre of the computed one.\<close>

definition example_db_near :: fibre_db where
  "example_db_near fibre field =
     (if fibre = ''FT001B'' then map_of [(''x'', 1005), (''y'', 10), (''z'', 0)] field else None)"

section \<open>Properties\<close>

subsection \<open>Vectors\<close>

lemma Mag2_nonneg: "0 \<le> Mag2 a"
  by (simp add: Mag2_def)

lemma Mag2_zero_iff: "Mag2 a = 0 \<longleftrightarrow> a = TVector3 0 0 0"
  by (cases a) (auto simp: Mag2_def add_nonneg_eq_0_iff)

lemma Mag_zero_iff: "Mag a = 0 \<longleftrightarrow> a = TVector3 0 0 0"
  by (simp add: Mag_def Mag2_zero_iff)

lemma Mag_nonneg: "0 \<le> Mag a"
  by (simp add: Mag_def Mag2_nonneg)

lemma Mag2_vscale: "Mag2 (vscale a k) = k * k * Mag2 a"
  by (simp add: Mag2_def vscale_def algebra_simps)

lemma Mag_vscale: "Mag (vscale a k) = \<bar>k\<bar> * Mag a"
  by (simp add: Mag_def Mag2_vscale real_sqrt_mult)

lemma SetMag_vscale: "SetMag a ma = (if Mag a = 0 then a else vscale a (ma / Mag a))"
  by (simp add: SetMag_def vscale_def Let_def)

lemma Mag_SetMag_1: "a \<noteq> TVector3 0 0 0 \<Longrightarrow> Mag (SetMag a 1) = 1"
  using Mag_nonneg[of a] by (simp add: SetMag_vscale Mag_vscale Mag_zero_iff)

lemma SetMag_zero: "SetMag (TVector3 0 0 0) ma = TVector3 0 0 0"
  by (simp add: SetMag_def Mag_def Mag2_def)

lemma Angle_self: "Angle a a = 0"
proof (cases "Mag2 a = 0")
  case True
  then show ?thesis by (simp add: Angle_def)
next
  case False
  then have p: "0 < Mag2 a" using Mag2_nonneg[of a] by simp
  have "Dot a a = Mag2 a" by (simp add: Dot_def Mag2_def)
  with p show ?thesis by (simp add: Angle_def Let_def)
qed

lemma Angle_antiparallel:
  assumes "a \<noteq> TVector3 0 0 0" and "0 < k"
  shows "Angle a (vscale a (- k)) = pi"
proof -
  have p: "0 < Mag2 a"
    using Mag2_nonneg[of a] Mag2_zero_iff[of a] assms by simp
  have d: "Dot a (vscale a (- k)) = - (k * Mag2 a)"
    by (simp add: Dot_def Mag2_def vscale_def algebra_simps)
  have m: "Mag2 a * Mag2 (vscale a (- k)) = (k * Mag2 a) * (k * Mag2 a)"
    by (simp add: Mag2_vscale)
  have q: "0 < k * Mag2 a" using p assms by simp
  then have s: "sqrt ((k * Mag2 a) * (k * Mag2 a)) = k * Mag2 a" by simp
  have "Dot a (vscale a (- k)) / sqrt (Mag2 a * Mag2 (vscale a (- k))) = - 1"
    unfolding m s d using p assms by simp
  moreover have "0 < (k * Mag2 a) * (k * Mag2 a)" by (rule mult_pos_pos[OF q q])
  then have "\<not> Mag2 a * Mag2 (vscale a (- k)) \<le> 0" unfolding m by simp
  ultimately show ?thesis by (simp add: Angle_def Let_def)
qed

subsection \<open>The plate geometry\<close>

lemma cos_30_degrees: "cos (30 * (pi / 180)) = sqrt 3 / 2"
proof -
  have "30 * (pi / 180) = pi / 6" by simp
  then show ?thesis by (simp add: cos_30)
qed

lemma hex_radius_pos: "0 < hex_radius"
  unfolding hex_radius_def hex_size_def cos_30_degrees by simp

lemma plate_offset_pos: "0 < hex_radius + plate_height"
  using hex_radius_pos by (simp add: plate_height_def)

lemma positions_midpoint:
  "vscale (vadd (positionA c h n v) (positionB c h n v)) (1 / 2) = plate_vec c h n"
  by (cases "plate_vec c h n") (simp add: positionA_def positionB_def vadd_def vsub_def vscale_def)

lemma positions_difference:
  "vsub (positionA c h n v) (positionB c h n v) =
   vscale (curve_correction c h n v) (2 * fibre_separation)"
  by (simp add: positionA_def positionB_def vadd_def vsub_def vscale_def)

lemma positions_distance:
  "Mag (vsub (positionA c h n v) (positionB c h n v)) =
   (if Cross (vsub (plate_vec c h n) h) v = TVector3 0 0 0 then 0 else 2 * fibre_separation)"
  by (simp add: positions_difference Mag_vscale curve_correction_def Mag_SetMag_1 SetMag_zero
      fibre_separation_def Mag_zero_iff[THEN iffD2])

subsection \<open>The example inputs, evaluated\<close>

lemma example_central_host:
  "get_pmt_coordinates example_flt example_pint example_rows ''S001'' ''none'' =
   Inr (TVector3 100 0 0, TVector3 100 0 0, TVector3 100 0 0, 1)"
  by (simp add: get_pmt_coordinates_def example_flt_def example_pint_def example_rows_def
      nonempty_fields_def row_xyz_def float_at_def ebind_def central_pmt_def Let_def)

lemma example_other_host:
  "get_pmt_coordinates example_flt example_pint example_rows ''S002'' ''none'' =
   Inr (TVector3 100 0 0, TVector3 100 1 0, TVector3 100 1 0, 1)"
  by (simp add: get_pmt_coordinates_def example_flt_def example_pint_def example_rows_def
      nonempty_fields_def row_xyz_def float_at_def ebind_def central_pmt_def Let_def)

lemma example_panel_vector: "panel_vector example_panels 1 = Inr (TVector3 1 0 0)"
  by (simp add: panel_vector_def example_panels_def array_at_def ebind_def)

subsection \<open>The "no neighbour" sentinel\<close>

text \<open>
  Claim C4. A neighbour identifier that contains \<^verbatim>\<open>none\<close> is the "no neighbour" sentinel:
  the placement then returns exactly what it returns when the neighbour identifier is the
  host identifier itself, be it a pair of positions or an exception.
\<close>

theorem no_neighbour_is_host:
  "sublist ''none'' neighbour_hex \<Longrightarrow>
   calc_fibre_placement flt pint tab rows host_hex neighbour_hex =
   calc_fibre_placement flt pint tab rows host_hex host_hex"
  by (simp add: calc_fibre_placement_def get_pmt_coordinates_def)

theorem no_neighbour_is_host_witness:
  "sublist ''none'' ''none'' \<and>
   calc_fibre_placement example_flt example_pint example_panels example_rows ''S002'' ''none'' =
   calc_fibre_placement example_flt example_pint example_panels example_rows ''S002'' ''S002''"
  using no_neighbour_is_host [of "''none''" example_flt example_pint example_panels example_rows "''S002''"]
  by simp

subsection \<open>The new database entries\<close>

lemma new_db_file_status:
  "SaveAs f flds \<in> set (fst (new_db_file nodes db fibre)) \<Longrightarrow>
   map_of flds ''fibre_status'' = Some 0"
  by (auto simp: new_db_file_def get_pointing_angle_def Let_def
      split: if_splits option.splits sum.splits prod.splits)

lemma new_db_file_fixed_mount:
  "SaveAs f flds \<in> set (fst (new_db_file nodes db fibre)) \<Longrightarrow> take 2 fibre = ''FT'' \<Longrightarrow>
   f = fibre \<and> map_of flds ''pointing_angle'' = Some 0"
  by (auto simp: new_db_file_def split: option.splits)

lemma new_db_file_name:
  "SaveAs f flds \<in> set (fst (new_db_file nodes db fibre)) \<Longrightarrow> f = fibre"
  by (auto simp: new_db_file_def get_pointing_angle_def Let_def
      split: if_splits option.splits sum.splits prod.splits)

lemma make_new_db_files_saved:
  "SaveAs f flds \<in> set (fst (make_new_db_files nodes db fibres)) \<Longrightarrow>
   \<exists>fibre \<in> set fibres. SaveAs f flds \<in> set (fst (new_db_file nodes db fibre))"
proof (induction fibres)
  case Nil
  then show ?case by simp
next
  case (Cons a fibres)
  then show ?case by (auto split: prod.splits option.splits)
qed

text \<open>
  Claim C7. For a fibre whose identifier starts with \<^verbatim>\<open>FT\<close> the pointing angle is not
  computed: whatever the database holds, nothing is read from it or printed, and the entry
  written for the fibre has pointing angle 0 (the entry is written when the fibre has a
  node; without one the lookup of the node raises). In a run over any list of fibres,
  every entry written for that fibre has pointing angle 0.
\<close>

theorem fixed_mount_angle_zero:
  assumes "take 2 fibre = ''FT''"
  shows "new_db_file nodes db fibre =
           (case nodes fibre of
              None \<Rightarrow> ([], Some KeyError)
            | Some node \<Rightarrow>
                ([SaveAs fibre [(''psup_pannel'', node), (''pointing_angle'', 0),
                                (''fibre_status'', 0)]], None)) \<and>
         (\<forall>flds. SaveAs fibre flds \<in> set (fst (make_new_db_files nodes db fibres)) \<longrightarrow>
                 map_of flds ''pointing_angle'' = Some 0)"
proof
  show "new_db_file nodes db fibre =
           (case nodes fibre of
              None \<Rightarrow> ([], Some KeyError)
            | Some node \<Rightarrow>
                ([SaveAs fibre [(''psup_pannel'', node), (''pointing_angle'', 0),
                                (''fibre_status'', 0)]], None))"
    using assms by (simp add: new_db_file_def split: option.splits)
next
  show "\<forall>flds. SaveAs fibre flds \<in> set (fst (make_new_db_files nodes db fibres)) \<longrightarrow>
                 map_of flds ''pointing_angle'' = Some 0"
  proof (intro allI impI)
    fix flds
    assume "SaveAs fibre flds \<in> set (fst (make_new_db_files nodes db fibres))"
    then obtain g where g: "SaveAs fibre flds \<in> set (fst (new_db_file nodes db g))"
      using make_new_db_files_saved by blast
    then have "fibre = g" by (rule new_db_file_name)
    with g assms show "map_of flds ''pointing_angle'' = Some 0"
      using new_db_file_fixed_mount by blast
  qed
qed

theorem fixed_mount_angle_zero_witness:
  "take 2 ''FT001A'' = ''FT'' \<and>
   new_db_file example_nodes example_db ''FT001A'' =
     ([SaveAs ''FT001A'' [(''psup_pannel'', 7), (''pointing_angle'', 0), (''fibre_status'', 0)]], None) \<and>
   SaveAs ''FT001A'' [(''psup_pannel'', 7), (''pointing_angle'', 0), (''fibre_status'', 0)]
     \<in> set (fst (make_new_db_files example_nodes example_db [''FT001A''])) \<and>
   map_of [(''psup_pannel'', 7), (''pointing_angle'', 0), (''fibre_status'', 0 :: int)] ''pointing_angle''
     = Some 0"
  using fixed_mount_angle_zero [of "''FT001A''" example_nodes example_db "[''FT001A'']"]
  by (simp add: example_nodes_def)

text \<open>
  Claim C9. The module's documentation names the three new fields \<^verbatim>\<open>psup_panel\<close>,
  \<^verbatim>\<open>pointing_angle\<close> and \<^verbatim>\<open>fibre_status\<close>. The entry written for a fibre has the last two,
  but its first field is set under the name \<^verbatim>\<open>psup_pannel\<close>: no field \<^verbatim>\<open>psup_panel\<close> is
  written.
\<close>

theorem written_field_names:
  "make_new_db_files example_nodes example_db [''FT001A''] =
     ([SaveAs ''FT001A'' [(''psup_pannel'', 7), (''pointing_angle'', 0), (''fibre_status'', 0)]], None) \<and>
   map_of [(''psup_pannel'', 7), (''pointing_angle'', 0), (''fibre_status'', 0 :: int)] ''psup_panel''
     = None"
  by (simp add: new_db_file_def example_nodes_def)

text \<open>
  Claim C10. Every entry that a run writes has \<^verbatim>\<open>fibre_status\<close> 0, whatever the fibre and
  whatever the database holds for it.
\<close>

theorem fibre_status_always_zero:
  "SaveAs f flds \<in> set (fst (make_new_db_files nodes db fibres)) \<Longrightarrow>
   map_of flds ''fibre_status'' = Some 0"
  using make_new_db_files_saved new_db_file_status by blast

theorem fibre_status_always_zero_witness:
  "SaveAs ''FS001'' [(''psup_pannel'', 8), (''pointing_angle'', 0), (''fibre_status'', 0)]
     \<in> set (fst (make_new_db_files example_nodes example_db [''FT001A'', ''FS001''])) \<and>
   map_of [(''psup_pannel'', 8), (''pointing_angle'', 0), (''fibre_status'', 0 :: int)] ''fibre_status''
     = Some 0"
  using fibre_status_always_zero [of "''FS001''"
      "[(''psup_pannel'', 8), (''pointing_angle'', 0), (''fibre_status'', 0)]"
      example_nodes example_db "[''FT001A'', ''FS001'']"]
  by (simp add: new_db_file_def example_nodes_def round_tens_def get_pointing_angle_def
      db_vector_def example_db_def Angle_def Mag2_def Dot_def Let_def)

subsection \<open>The placement of the example cells\<close>

lemma example_placement_central:
  "calc_fibre_placement example_flt example_pint example_panels example_rows ''S001'' ''none''
   = Inr (TVector3 100 0 0, TVector3 100 0 0)"
  by (simp add: calc_fibre_placement_def example_central_host example_panel_vector ebind_def
      positionA_def positionB_def curve_correction_def plate_vec_def cent_to_neig_unit_def
      SetMag_def Mag_def Mag2_def vsub_def vadd_def vscale_def Cross_def)

lemma SetMag_down: "0 < k \<Longrightarrow> SetMag (TVector3 0 0 (- k)) 1 = TVector3 0 0 (- 1)"
  by (simp add: SetMag_def Mag_def Mag2_def)

lemma example_plate_vec:
  "plate_vec (TVector3 100 0 0) (TVector3 100 1 0) (TVector3 100 1 0) =
   TVector3 100 (1 + (hex_radius + plate_height)) 0"
  by (simp add: plate_vec_def cent_to_neig_unit_def SetMag_def Mag_def Mag2_def vsub_def
      vadd_def vscale_def)

lemma example_placement_other:
  "calc_fibre_placement example_flt example_pint example_panels example_rows ''S002'' ''none''
   = Inr (TVector3 100 (1 + (hex_radius + plate_height)) (- 0.51),
          TVector3 100 (1 + (hex_radius + plate_height)) 0.51)"
proof -
  have v: "SetMag (TVector3 1 0 0) 1 = TVector3 1 0 0"
    by (simp add: SetMag_def Mag_def Mag2_def)
  have c: "curve_correction (TVector3 100 0 0) (TVector3 100 1 0) (TVector3 100 1 0) (TVector3 1 0 0) =
           TVector3 0 0 (- 1)"
    using SetMag_down[OF plate_offset_pos]
    by (simp add: curve_correction_def example_plate_vec vsub_def Cross_def)
  show ?thesis
    by (simp add: calc_fibre_placement_def example_other_host example_panel_vector ebind_def v
        positionA_def positionB_def example_plate_vec c vadd_def vsub_def vscale_def
        fibre_separation_def)
qed

subsection \<open>The two positions and the plate vector\<close>

lemma calc_fibre_placement_Inr:
  assumes "calc_fibre_placement flt pint tab rows host_hex neighbour_hex = Inr (A, B)"
  obtains c h n p pointing where
    "get_pmt_coordinates flt pint rows host_hex neighbour_hex = Inr (c, h, n, p)"
    "panel_vector tab p = Inr pointing"
    "A = positionA c h n (SetMag pointing 1)"
    "B = positionB c h n (SetMag pointing 1)"
  using assms
  by (auto simp: calc_fibre_placement_def ebind_def Let_def split: sum.splits prod.splits)

text \<open>
  Claim C1, as the code has it. Whenever the placement returns a pair of positions A and B,
  their midpoint is the plate vector. Their distance is twice the fibre separation, 1.02 cm,
  unless the cross product of the offset of the plate from the host cell with the panel's
  pointing vector is the zero vector: then \<^verbatim>\<open>SetMag\<close> leaves the curve correction zero and
  the distance is 0.
\<close>

theorem positions_symmetric_about_plate:
  assumes "calc_fibre_placement flt pint tab rows host_hex neighbour_hex = Inr (A, B)"
  shows "\<exists>c h n p pointing.
           get_pmt_coordinates flt pint rows host_hex neighbour_hex = Inr (c, h, n, p) \<and>
           panel_vector tab p = Inr pointing \<and>
           vscale (vadd A B) (1 / 2) = plate_vec c h n \<and>
           Mag (vsub A B) =
             (if Cross (vsub (plate_vec c h n) h) (SetMag pointing 1) = TVector3 0 0 0 then 0
              else 2 * fibre_separation) \<and>
           2 * fibre_separation = 1.02"
proof -
  from assms obtain c h n p pointing where
    g: "get_pmt_coordinates flt pint rows host_hex neighbour_hex = Inr (c, h, n, p)" and
    t: "panel_vector tab p = Inr pointing" and
    a: "A = positionA c h n (SetMag pointing 1)" and
    b: "B = positionB c h n (SetMag pointing 1)"
    by (rule calc_fibre_placement_Inr)
  have "vscale (vadd A B) (1 / 2) = plate_vec c h n"
    unfolding a b by (rule positions_midpoint)
  moreover have "Mag (vsub A B) =
             (if Cross (vsub (plate_vec c h n) h) (SetMag pointing 1) = TVector3 0 0 0 then 0
              else 2 * fibre_separation)"
    unfolding a b by (rule positions_distance)
  moreover have "2 * fibre_separation = 1.02" by (simp add: fibre_separation_def)
  ultimately show ?thesis using g t by blast
qed

theorem positions_symmetric_about_plate_witness:
  "calc_fibre_placement example_flt example_pint example_panels example_rows ''S002'' ''none''
     = Inr (TVector3 100 (1 + (hex_radius + plate_height)) (- 0.51),
            TVector3 100 (1 + (hex_radius + plate_height)) 0.51) \<and>
   vscale (vadd (TVector3 100 (1 + (hex_radius + plate_height)) (- 0.51))
                (TVector3 100 (1 + (hex_radius + plate_height)) 0.51)) (1 / 2)
     = plate_vec (TVector3 100 0 0) (TVector3 100 1 0) (TVector3 100 1 0) \<and>
   Mag (vsub (TVector3 100 (1 + (hex_radius + plate_height)) (- 0.51))
             (TVector3 100 (1 + (hex_radius + plate_height)) 0.51)) = 1.02"
  using positions_symmetric_about_plate [OF example_placement_other] plate_offset_pos
  by (simp add: example_placement_other example_other_host example_panel_vector example_plate_vec
      SetMag_def Mag_def Mag2_def vsub_def Cross_def)

text \<open>
  Claim C1 as stated fails: for the central cell of a panel as host, with no neighbour, the
  placement succeeds and returns the same point twice.
\<close>

theorem degenerate_positions_coincide:
  "calc_fibre_placement example_flt example_pint example_panels example_rows ''S001'' ''none''
     = Inr (TVector3 100 0 0, TVector3 100 0 0) \<and>
   Mag (vsub (TVector3 100 0 0) (TVector3 100 0 0)) \<noteq> 2 * fibre_separation"
  by (simp add: example_placement_central Mag_def Mag2_def vsub_def fibre_separation_def)

lemma spec_unit_vector_Mag: "n \<noteq> c \<Longrightarrow> Mag (spec_unit_vector c n) = 1"
proof -
  assume "n \<noteq> c"
  then have "vsub n c \<noteq> TVector3 0 0 0" by (cases n; cases c) (auto simp: vsub_def)
  then have "Mag (vsub n c) \<noteq> 0" by (simp add: Mag_zero_iff)
  then show ?thesis using Mag_nonneg[of "vsub n c"]
    by (simp add: spec_unit_vector_def Mag_vscale)
qed

lemma plate_vec_refines:
  "plate_vec c h n = (if n = c then h else spec_plate_vec c h n)"
proof (cases "n = c")
  case True
  then have "vsub n c = TVector3 0 0 0" by (simp add: vsub_def)
  then show ?thesis using True
    by (cases h) (simp add: plate_vec_def cent_to_neig_unit_def SetMag_zero vadd_def vscale_def)
next
  case False
  then have "vsub n c \<noteq> TVector3 0 0 0" by (cases n; cases c) (auto simp: vsub_def)
  then have "Mag (vsub n c) \<noteq> 0" by (simp add: Mag_zero_iff)
  then show ?thesis using False
    by (simp add: plate_vec_def spec_plate_vec_def spec_unit_vector_def cent_to_neig_unit_def
        SetMag_vscale hex_radius_def hex_size_def plate_height_def)
qed

lemma plate_vec_offset_Mag:
  "Mag (vsub (plate_vec c h n) h) = (if n = c then 0 else hex_radius + plate_height)"
proof -
  have e: "vsub (plate_vec c h n) h = vscale (cent_to_neig_unit c n) (hex_radius + plate_height)"
    by (simp add: plate_vec_def vadd_def vsub_def vscale_def)
  have z: "vsub n c = TVector3 0 0 0 \<longleftrightarrow> n = c"
    by (cases n; cases c) (auto simp: vsub_def)
  have m: "Mag (vsub (plate_vec c h n) h) = (hex_radius + plate_height) * Mag (cent_to_neig_unit c n)"
    using plate_offset_pos by (simp add: e Mag_vscale)
  have "Mag (cent_to_neig_unit c n) = (if n = c then 0 else 1)"
  proof (cases "n = c")
    case True
    then have "vsub n c = TVector3 0 0 0" using z by simp
    then have "Mag (cent_to_neig_unit c n) = 0"
      by (simp add: cent_to_neig_unit_def SetMag_zero Mag_zero_iff)
    with True show ?thesis by simp
  next
    case False
    then have "vsub n c \<noteq> TVector3 0 0 0" using z by simp
    then have "Mag (cent_to_neig_unit c n) = 1"
      by (simp add: cent_to_neig_unit_def Mag_SetMag_1)
    with False show ?thesis by simp
  qed
  with m show ?thesis by simp
qed

text \<open>
  Claim C2, as the code has it. Whenever the placement succeeds with a neighbour vector that
  differs from the central vector, the plate vector is the one of the specification: the
  host vector plus the unit vector from the central to the neighbour vector, scaled by the
  hex radius plus the plate height, with the constants of the specification. When the two
  vectors coincide there is no such unit vector, and the plate vector is the host vector.
\<close>

theorem plate_vec_offset:
  assumes "calc_fibre_placement flt pint tab rows host_hex neighbour_hex = Inr (A, B)"
  shows "\<exists>c h n p.
           get_pmt_coordinates flt pint rows host_hex neighbour_hex = Inr (c, h, n, p) \<and>
           plate_vec c h n = (if n = c then h else spec_plate_vec c h n) \<and>
           Mag (vsub (plate_vec c h n) h) = (if n = c then 0 else hex_radius + plate_height) \<and>
           Mag (spec_unit_vector c n) = (if n = c then 0 else 1) \<and>
           hex_size = 17.05 \<and> plate_height = 0.52 \<and> hex_radius = hex_size * cos (pi / 6) \<and>
           fibre_separation = 0.51"
proof -
  from assms obtain c h n p pointing where
    g: "get_pmt_coordinates flt pint rows host_hex neighbour_hex = Inr (c, h, n, p)"
    by (rule calc_fibre_placement_Inr)
  have r: "plate_vec c h n = (if n = c then h else spec_plate_vec c h n)"
    by (rule plate_vec_refines)
  have u: "Mag (spec_unit_vector c n) = (if n = c then 0 else 1)"
    by (simp add: spec_unit_vector_Mag) (simp add: spec_unit_vector_def vsub_def vscale_def Mag_def Mag2_def)
  have d: "Mag (vsub (plate_vec c h n) h) = (if n = c then 0 else hex_radius + plate_height)"
    by (simp add: plate_vec_offset_Mag)
  have k: "hex_size = 17.05 \<and> plate_height = 0.52 \<and> hex_radius = hex_size * cos (pi / 6) \<and>
           fibre_separation = 0.51"
    by (simp add: hex_size_def plate_height_def hex_radius_def fibre_separation_def)
  show ?thesis using g r u d k by blast
qed

theorem plate_vec_offset_witness:
  "calc_fibre_placement example_flt example_pint example_panels example_rows ''S002'' ''none''
     = Inr (TVector3 100 (1 + (hex_radius + plate_height)) (- 0.51),
            TVector3 100 (1 + (hex_radius + plate_height)) 0.51) \<and>
   plate_vec (TVector3 100 0 0) (TVector3 100 1 0) (TVector3 100 1 0) =
     spec_plate_vec (TVector3 100 0 0) (TVector3 100 1 0) (TVector3 100 1 0) \<and>
   Mag (vsub (plate_vec (TVector3 100 0 0) (TVector3 100 1 0) (TVector3 100 1 0)) (TVector3 100 1 0))
     = hex_radius + plate_height \<and>
   Mag (spec_unit_vector (TVector3 100 0 0) (TVector3 100 1 0)) = 1"
  using plate_vec_offset [OF example_placement_other]
  by (auto simp: example_placement_other example_other_host)

text \<open>
  Claim C2 as stated fails: for the central cell of a panel as host, with no neighbour, the
  plate vector is the host vector, at distance 0 from it and not at the distance of the
  hex radius plus the plate height.
\<close>

theorem degenerate_plate_vec:
  "get_pmt_coordinates example_flt example_pint example_rows ''S001'' ''none''
     = Inr (TVector3 100 0 0, TVector3 100 0 0, TVector3 100 0 0, 1) \<and>
   plate_vec (TVector3 100 0 0) (TVector3 100 0 0) (TVector3 100 0 0) = TVector3 100 0 0 \<and>
   Mag (vsub (plate_vec (TVector3 100 0 0) (TVector3 100 0 0) (TVector3 100 0 0)) (TVector3 100 0 0))
     \<noteq> hex_radius + plate_height"
  using plate_offset_pos
  by (simp add: example_central_host plate_vec_def cent_to_neig_unit_def SetMag_def Mag_def Mag2_def
      vsub_def vadd_def vscale_def)

subsection \<open>The pointing angle\<close>

lemma example_db_FS001:
  "db_vector example_db ''FS001'' ''x'' ''y'' ''z'' = Some (TVector3 1 0 0) \<and>
   db_vector example_db ''FS001'' ''u'' ''v'' ''w'' = Some (TVector3 (- 1) 0 0)"
  by (simp add: db_vector_def example_db_def)

lemma example_db_FS002:
  "db_vector example_db ''FS002'' ''x'' ''y'' ''z'' = Some (TVector3 1 0 0) \<and>
   db_vector example_db ''FS002'' ''u'' ''v'' ''w'' = Some (TVector3 1 0 0)"
  by (simp add: db_vector_def example_db_def)

text \<open>
  Claim C6, as the code has it. The function returns 180 degrees minus the angle between
  the recorded position vector and the recorded pointing vector. So a fibre whose pointing
  vector is exactly antiparallel to its (non-zero) position vector, that is a fibre that
  points at the centre of the detector, has pointing angle 0, and a fibre whose pointing
  vector equals its position vector has pointing angle 180.
\<close>

theorem pointing_angle_extremes:
  assumes "db_vector db fibre ''x'' ''y'' ''z'' = Some central_vector"
    and "db_vector db fibre ''u'' ''v'' ''w'' = Some pointing_vector"
  shows "(central_vector \<noteq> TVector3 0 0 0 \<and> 0 < k \<and> pointing_vector = vscale central_vector (- k)
            \<longrightarrow> get_pointing_angle db fibre = ([], Inr 0)) \<and>
         (pointing_vector = central_vector \<longrightarrow> get_pointing_angle db fibre = ([], Inr 180))"
proof -
  have g: "get_pointing_angle db fibre =
           ([], Inr (180 - Angle central_vector pointing_vector * (180 / pi)))"
    using assms by (simp add: get_pointing_angle_def)
  have a: "central_vector \<noteq> TVector3 0 0 0 \<and> 0 < k \<and> pointing_vector = vscale central_vector (- k)
            \<longrightarrow> get_pointing_angle db fibre = ([], Inr 0)"
    by (simp add: g Angle_antiparallel)
  have e: "pointing_vector = central_vector \<longrightarrow> get_pointing_angle db fibre = ([], Inr 180)"
    by (simp add: g Angle_self)
  show ?thesis using a e by blast
qed

theorem pointing_angle_extremes_witness:
  "db_vector example_db ''FS001'' ''x'' ''y'' ''z'' = Some (TVector3 1 0 0) \<and>
   db_vector example_db ''FS001'' ''u'' ''v'' ''w'' = Some (vscale (TVector3 1 0 0) (- 1)) \<and>
   get_pointing_angle example_db ''FS001'' = ([], Inr 0) \<and>
   db_vector example_db ''FS002'' ''x'' ''y'' ''z'' = Some (TVector3 1 0 0) \<and>
   db_vector example_db ''FS002'' ''u'' ''v'' ''w'' = Some (TVector3 1 0 0) \<and>
   get_pointing_angle example_db ''FS002'' = ([], Inr 180)"
  using pointing_angle_extremes [of example_db "''FS001''" "TVector3 1 0 0" "TVector3 (- 1) 0 0" 1]
    pointing_angle_extremes [of example_db "''FS002''" "TVector3 1 0 0" "TVector3 1 0 0" 1]
  by (simp add: example_db_FS001 example_db_FS002 vscale_def)

text \<open>
  Claim C6 as stated fails: the antiparallel fibre of the example database does not get 180
  degrees, and the parallel one does not get 0 degrees.
\<close>

theorem pointing_angle_reversed:
  "db_vector example_db ''FS001'' ''x'' ''y'' ''z'' = Some (TVector3 1 0 0) \<and>
   db_vector example_db ''FS001'' ''u'' ''v'' ''w'' = Some (vscale (TVector3 1 0 0) (- 1)) \<and>
   snd (get_pointing_angle example_db ''FS001'') \<noteq> Inr 180 \<and>
   db_vector example_db ''FS002'' ''x'' ''y'' ''z'' = Some (TVector3 1 0 0) \<and>
   db_vector example_db ''FS002'' ''u'' ''v'' ''w'' = Some (TVector3 1 0 0) \<and>
   snd (get_pointing_angle example_db ''FS002'') \<noteq> Inr 0"
  by (simp add: get_pointing_angle_def db_vector_def example_db_def Angle_def Mag2_def Dot_def
      Let_def vscale_def)

subsection \<open>The central cell of a panel\<close>

lemma panel_cells_distinct:
  "distinct (map fst acc) \<Longrightarrow> panel_cells flt pint pn rs acc = Inr r \<Longrightarrow> distinct (map fst r)"
proof (induction rs arbitrary: acc)
  case Nil
  then show ?case by simp
next
  case (Cons a rs)
  show ?case
  proof (cases "panel_cells flt pint pn rs acc = Inr r")
    case True
    then show ?thesis using Cons.IH[OF Cons.prems(1)] by simp
  next
    case False
    with Cons.prems(2) obtain k xyz where
      "panel_cells flt pint pn rs (AList.update k xyz acc) = Inr r"
      by (auto simp: Let_def ebind_def split: if_splits option.splits sum.splits)
    moreover have "distinct (map fst (AList.update k xyz acc))"
      using Cons.prems(1) by (rule distinct_update)
    ultimately show ?thesis using Cons.IH by blast
  qed
qed

lemma length_eq_card_dom: "distinct (map fst xs) \<Longrightarrow> length xs = card (dom (map_of xs))"
proof -
  assume d: "distinct (map fst xs)"
  have "card (dom (map_of xs)) = card (set (map fst xs))"
    by (simp add: dom_map_of_conv_image_fst)
  also have "\<dots> = length (map fst xs)" using d by (rule distinct_card)
  finally show ?thesis by simp
qed

lemma example_ten_cells:
  "get_pmt_coordinates example_flt example_pint example_rows10 ''T001'' ''none'' =
   Inr (TVector3 100 1 0, TVector3 1 1 1, TVector3 1 1 1, 2)"
  by (simp add: get_pmt_coordinates_def example_flt_def example_pint_def example_rows10_def
      nonempty_fields_def row_xyz_def float_at_def ebind_def central_pmt_def Let_def)

lemma example_two_cells_panel:
  "panel_cells example_flt example_pint (Some ''P001'') (drop 1 example_rows) [] =
   Inr [(4, TVector3 100 0 0), (5, TVector3 100 1 0)]"
  by (simp add: example_flt_def example_pint_def example_rows_def
      nonempty_fields_def row_xyz_def float_at_def ebind_def Let_def)

lemma example_ten_cells_panel:
  "panel_cells example_flt example_pint (Some ''P002'') (drop 1 example_rows10) [] =
   Inr [(1, TVector3 1 1 1), (2, TVector3 1 1 1), (3, TVector3 1 1 1), (4, TVector3 0 0 0),
        (5, TVector3 1 1 1), (6, TVector3 1 1 1), (7, TVector3 1 1 1), (8, TVector3 1 1 1),
        (9, TVector3 1 1 1), (10, TVector3 100 1 0)]"
  by (simp add: example_flt_def example_pint_def example_rows10_def
      nonempty_fields_def row_xyz_def float_at_def ebind_def Let_def)

text \<open>
  Claim C3. When \<^verbatim>\<open>get_pmt_coordinates\<close> returns, the host cell has been found with the name
  of its panel, and the dictionary of the cells of that panel has been built; its length is
  the number of different cell indices of the panel; and the returned central vector is the
  entry of index 10 when the panel has more than 9 cells, and the entry of index 4
  otherwise.
\<close>

theorem central_cell_selection:
  assumes "get_pmt_coordinates flt pint rows host_hex neighbour_hex =
             Inr (central_vec, host_vec, neighbour_vec, p)"
  shows "\<exists>panel_name nb panel_pmts.
           find_cells flt host_hex (if sublist ''none'' neighbour_hex then host_hex else neighbour_hex)
             (drop 1 rows) (None, None) = Inr (Some (host_vec, panel_name), nb) \<and>
           panel_cells flt pint (Some panel_name) (drop 1 rows) [] = Inr panel_pmts \<and>
           pint (drop 1 panel_name) = Some p \<and>
           length panel_pmts = card (dom (map_of panel_pmts)) \<and>
           map_of panel_pmts (if card (dom (map_of panel_pmts)) > 9 then 10 else 4)
             = Some central_vec"
proof -
  from assms obtain panel_name nb panel_pmts where
    fc: "find_cells flt host_hex (if sublist ''none'' neighbour_hex then host_hex else neighbour_hex)
             (drop 1 rows) (None, None) = Inr (Some (host_vec, panel_name), nb)" and
    pc': "panel_cells flt pint (Some panel_name) (drop 1 rows) [] = Inr panel_pmts" and
    ce: "central_pmt panel_pmts = Inr central_vec" and
    pn: "pint (drop 1 panel_name) = Some p"
    by (auto simp: get_pmt_coordinates_def ebind_def Let_def
        split: sum.splits prod.splits option.splits if_splits)
  have "distinct (map fst panel_pmts)"
    using panel_cells_distinct[OF _ pc'] by simp
  then have l: "length panel_pmts = card (dom (map_of panel_pmts))"
    by (rule length_eq_card_dom)
  have "map_of panel_pmts (if length panel_pmts > 9 then 10 else 4) = Some central_vec"
    using ce by (auto simp: central_pmt_def split: option.splits)
  then have "map_of panel_pmts (if card (dom (map_of panel_pmts)) > 9 then 10 else 4)
             = Some central_vec"
    using l by simp
  with fc pc' pn l show ?thesis by blast
qed

theorem central_cell_selection_witness:
  "get_pmt_coordinates example_flt example_pint example_rows ''S002'' ''none'' =
     Inr (TVector3 100 0 0, TVector3 100 1 0, TVector3 100 1 0, 1) \<and>
   panel_cells example_flt example_pint (Some ''P001'') (drop 1 example_rows) [] =
     Inr [(4, TVector3 100 0 0), (5, TVector3 100 1 0)] \<and>
   \<not> card (dom (map_of [(4 :: int, TVector3 100 0 0), (5, TVector3 100 1 0)])) > 9 \<and>
   map_of [(4 :: int, TVector3 100 0 0), (5, TVector3 100 1 0)] 4 = Some (TVector3 100 0 0) \<and>
   get_pmt_coordinates example_flt example_pint example_rows10 ''T001'' ''none'' =
     Inr (TVector3 100 1 0, TVector3 1 1 1, TVector3 1 1 1, 2) \<and>
   panel_cells example_flt example_pint (Some ''P002'') (drop 1 example_rows10) [] =
     Inr [(1, TVector3 1 1 1), (2, TVector3 1 1 1), (3, TVector3 1 1 1), (4, TVector3 0 0 0),
          (5, TVector3 1 1 1), (6, TVector3 1 1 1), (7, TVector3 1 1 1), (8, TVector3 1 1 1),
          (9, TVector3 1 1 1), (10, TVector3 100 1 0)] \<and>
   card (dom (map_of [(1 :: int, TVector3 1 1 1), (2, TVector3 1 1 1), (3, TVector3 1 1 1),
          (4, TVector3 0 0 0), (5, TVector3 1 1 1), (6, TVector3 1 1 1), (7, TVector3 1 1 1),
          (8, TVector3 1 1 1), (9, TVector3 1 1 1), (10, TVector3 100 1 0)])) > 9 \<and>
   map_of [(1 :: int, TVector3 1 1 1), (2, TVector3 1 1 1), (3, TVector3 1 1 1),
          (4, TVector3 0 0 0), (5, TVector3 1 1 1), (6, TVector3 1 1 1), (7, TVector3 1 1 1),
          (8, TVector3 1 1 1), (9, TVector3 1 1 1), (10, TVector3 100 1 0)] 10
     = Some (TVector3 100 1 0)"
  using central_cell_selection [OF example_other_host] central_cell_selection [OF example_ten_cells]
    example_two_cells_panel example_ten_cells_panel
  by (simp add: example_other_host example_ten_cells)

subsection \<open>A host cell that is not in the table\<close>

lemma find_cells_no_host:
  "\<not> list_ex (\<lambda>r. r \<noteq> [] \<and> 1 < length (nonempty_fields r) \<and> take 4 (nonempty_fields r ! 1) = host) rs \<Longrightarrow>
   find_cells flt host nb rs (None, n) = Inr (h', n') \<Longrightarrow> h' = None"
proof (induction rs arbitrary: n)
  case Nil
  then show ?case by simp
next
  case (Cons a rs)
  then show ?case
    by (auto simp: Let_def ebind_def split: if_splits sum.splits)
qed

lemma panel_cells_unbound: "panel_cells flt pint None rs acc = Inr r \<Longrightarrow> r = acc"
  by (induction rs arbitrary: acc) (auto simp: Let_def split: if_splits)

lemma get_pmt_coordinates_unlisted:
  assumes "\<not> cell_listed rows host"
  shows "\<exists>e. get_pmt_coordinates flt pint rows host nb = Inl e"
proof -
  let ?nb = "if sublist ''none'' nb then host else nb"
  show ?thesis
  proof (cases "find_cells flt host ?nb (drop 1 rows) (None, None)")
    case (Inl e)
    then show ?thesis by (simp add: get_pmt_coordinates_def ebind_def)
  next
    case (Inr st)
    obtain h n where st: "st = (h, n)" by (cases st)
    have h: "h = None"
      using find_cells_no_host[of host "drop 1 rows" flt ?nb None h n] assms Inr st
      by (simp add: cell_listed_def)
    show ?thesis
    proof (cases n)
      case None
      then show ?thesis using Inr st h by (simp add: get_pmt_coordinates_def ebind_def)
    next
      case (Some v)
      show ?thesis
      proof (cases "panel_cells flt pint None (drop 1 rows) []")
        case (Inl e)
        then show ?thesis using Inr st h Some by (simp add: get_pmt_coordinates_def ebind_def)
      next
        case (Inr r)
        then have "r = []" by (rule panel_cells_unbound)
        then show ?thesis using Inr \<open>find_cells flt host ?nb (drop 1 rows) (None, None) = Inr st\<close> st h Some
          by (simp add: get_pmt_coordinates_def ebind_def central_pmt_def)
      qed
    qed
  qed
qed

lemma compare_append:
  "compare_position_calculations flt pint tab db (xs @ ys) pmt_hex neighbour_hex rows =
   (case compare_position_calculations flt pint tab db xs pmt_hex neighbour_hex rows of
      (out, Some e) \<Rightarrow> (out, Some e)
    | (out, None) \<Rightarrow>
        (case compare_position_calculations flt pint tab db ys pmt_hex neighbour_hex rows of
           (out', r) \<Rightarrow> (out @ out', r)))"
  by (induction xs) (auto split: prod.splits option.splits)

lemma example_unlisted: "\<not> cell_listed example_rows ''S009''"
  by (simp add: cell_listed_def example_rows_def nonempty_fields_def)

lemma example_unlisted_placement:
  "calc_fibre_placement example_flt example_pint example_panels example_rows ''S009'' ''S001'' =
   Inl NameError"
  by (simp add: calc_fibre_placement_def get_pmt_coordinates_def example_flt_def example_pint_def
      example_rows_def nonempty_fields_def row_xyz_def float_at_def ebind_def central_pmt_def Let_def)

lemma example_compare_FT001B:
  "compare_fibre example_flt example_pint example_panels example_db
       example_pmt_hex example_neighbour_hex example_rows ''FT001B'' =
     ([Hashes, FibreName ''FT001B'', HostNeighbour ''S002'' ''none'', Database 102 1 0,
       Calculated 100 (1 + (hex_radius + plate_height)) 0.51], None)"
  by (simp add: compare_fibre_def example_placement_other example_pmt_hex_def
      example_neighbour_hex_def example_db_def)

lemma example_compare_FS001:
  "compare_fibre example_flt example_pint example_panels example_db
       example_pmt_hex example_neighbour_hex example_rows ''FS001'' = ([], Some NameError)"
  by (simp add: compare_fibre_def example_unlisted_placement example_pmt_hex_def
      example_neighbour_hex_def)

text \<open>
  Claim C8, as the code has it. When the host cell of a fibre has no match in the
  coordinate table, the placement raises, and nothing in the loop catches it: the run ends
  there with that exception. Its output is the output of the fibres before, and no later
  fibre is processed.
\<close>

theorem unresolved_host_aborts_run:
  assumes "\<not> cell_listed rows host"
    and "pmt_hex fibre = Some host" and "neighbour_hex fibre = Some neighbour"
    and "compare_position_calculations flt pint tab db before pmt_hex neighbour_hex rows = (out, None)"
  shows "\<exists>e. calc_fibre_placement flt pint tab rows host neighbour = Inl e \<and>
             compare_position_calculations flt pint tab db (before @ fibre # after)
               pmt_hex neighbour_hex rows = (out, Some e)"
proof -
  from assms(1) obtain e where "get_pmt_coordinates flt pint rows host neighbour = Inl e"
    using get_pmt_coordinates_unlisted by blast
  then have c: "calc_fibre_placement flt pint tab rows host neighbour = Inl e"
    by (simp add: calc_fibre_placement_def ebind_def)
  then have "compare_fibre flt pint tab db pmt_hex neighbour_hex rows fibre = ([], Some e)"
    using assms(2,3) by (simp add: compare_fibre_def)
  then have "compare_position_calculations flt pint tab db (before @ fibre # after)
               pmt_hex neighbour_hex rows = (out, Some e)"
    using assms(4) by (simp add: compare_append)
  with c show ?thesis by blast
qed

theorem unresolved_host_aborts_run_witness:
  "\<not> cell_listed example_rows ''S009'' \<and>
   example_pmt_hex ''FS001'' = Some ''S009'' \<and>
   example_neighbour_hex ''FS001'' = Some ''S001'' \<and>
   compare_position_calculations example_flt example_pint example_panels example_db
       [''FT001B''] example_pmt_hex example_neighbour_hex example_rows =
     ([Hashes, FibreName ''FT001B'', HostNeighbour ''S002'' ''none'', Database 102 1 0,
       Calculated 100 (1 + (hex_radius + plate_height)) 0.51], None) \<and>
   compare_position_calculations example_flt example_pint example_panels example_db
       ([''FT001B''] @ ''FS001'' # [''FT001B'']) example_pmt_hex example_neighbour_hex example_rows =
     ([Hashes, FibreName ''FT001B'', HostNeighbour ''S002'' ''none'', Database 102 1 0,
       Calculated 100 (1 + (hex_radius + plate_height)) 0.51], Some NameError)"
proof -
  have b: "compare_position_calculations example_flt example_pint example_panels example_db
       [''FT001B''] example_pmt_hex example_neighbour_hex example_rows =
     ([Hashes, FibreName ''FT001B'', HostNeighbour ''S002'' ''none'', Database 102 1 0,
       Calculated 100 (1 + (hex_radius + plate_height)) 0.51], None)"
    by (simp add: example_compare_FT001B)
  have h: "example_pmt_hex ''FS001'' = Some ''S009''" by (simp add: example_pmt_hex_def)
  have n: "example_neighbour_hex ''FS001'' = Some ''S001''" by (simp add: example_neighbour_hex_def)
  from unresolved_host_aborts_run [OF example_unlisted h n b, of "[''FT001B'']"]
  show ?thesis using example_unlisted h n b example_unlisted_placement by auto
qed

text \<open>
  Claim C8 as stated fails: a fibre whose host cell is not in the table ends the run, and
  the report of the fibre after it, printed when that fibre is compared alone, is lost.
\<close>

theorem unresolved_host_stops_later_fibres:
  "compare_position_calculations example_flt example_pint example_panels example_db
       [''FS001'', ''FT001B''] example_pmt_hex example_neighbour_hex example_rows =
     ([], Some NameError) \<and>
   compare_position_calculations example_flt example_pint example_panels example_db
       [''FT001B''] example_pmt_hex example_neighbour_hex example_rows =
     ([Hashes, FibreName ''FT001B'', HostNeighbour ''S002'' ''none'', Database 102 1 0,
       Calculated 100 (1 + (hex_radius + plate_height)) 0.51], None)"
  by (simp add: example_compare_FT001B example_compare_FS001)

subsection \<open>The comparison with the database\<close>

lemma compare_fibre_report:
  assumes "pmt_hex fibre = Some host" and "neighbour_hex fibre = Some neighbour"
    and "calc_fibre_placement flt pint tab rows host neighbour = Inr (posA, posB)"
    and "db fibre ''x'' = Some x" and "db fibre ''y'' = Some y" and "db fibre ''z'' = Some z"
    and "fibre \<noteq> []"
  shows "compare_fibre flt pint tab db pmt_hex neighbour_hex rows fibre =
           (let pos = (if last fibre = CHR ''B'' then posB else posA)
            in (if \<bar>x / 10 - fX pos\<bar> > 1
                then [Hashes, FibreName fibre, HostNeighbour host neighbour,
                      Database (x / 10) (y / 10) (z / 10),
                      Calculated (fX pos) (fY pos) (fZ pos)]
                else [], None))"
  using assms by (simp add: compare_fibre_def Let_def)

text \<open>
  Claim C5, as the code has it. Take a run of the comparison over a list of fibres, and in
  it a fibre that the run reaches (the run over the fibres before it ends without an
  exception), that has a host and a neighbour cell, a successful placement, a non-empty
  identifier and a recorded position x, y, z. The run prints the report of that fibre, after
  the output of the fibres before it and before the output of the fibres after it, exactly
  when the recorded x divided by 10 differs from the computed x by more than 1, where the
  computed position is position B when the identifier ends in \<^verbatim>\<open>B\<close> and position A
  otherwise; it prints nothing for the fibre when the difference is at most 1. The test
  reads no other coordinate.
\<close>

theorem validator_report:
  assumes "compare_position_calculations flt pint tab db before pmt_hex neighbour_hex rows =
             (out, None)"
    and "pmt_hex fibre = Some host" and "neighbour_hex fibre = Some neighbour"
    and "calc_fibre_placement flt pint tab rows host neighbour = Inr (posA, posB)"
    and "db fibre ''x'' = Some x" and "db fibre ''y'' = Some y" and "db fibre ''z'' = Some z"
    and "fibre \<noteq> []"
  shows "compare_position_calculations flt pint tab db (before @ fibre # after)
           pmt_hex neighbour_hex rows =
           (let pos = (if last fibre = CHR ''B'' then posB else posA);
                report = (if \<bar>x / 10 - fX pos\<bar> > 1
                          then [Hashes, FibreName fibre, HostNeighbour host neighbour,
                                Database (x / 10) (y / 10) (z / 10),
                                Calculated (fX pos) (fY pos) (fZ pos)]
                          else [])
            in case compare_position_calculations flt pint tab db after pmt_hex neighbour_hex rows of
                 (out', r) \<Rightarrow> (out @ report @ out', r))"
proof -
  have f: "compare_fibre flt pint tab db pmt_hex neighbour_hex rows fibre =
           (let pos = (if last fibre = CHR ''B'' then posB else posA)
            in (if \<bar>x / 10 - fX pos\<bar> > 1
                then [Hashes, FibreName fibre, HostNeighbour host neighbour,
                      Database (x / 10) (y / 10) (z / 10),
                      Calculated (fX pos) (fY pos) (fZ pos)]
                else [], None))"
    using assms(2-8) by (rule compare_fibre_report)
  show ?thesis
    using assms(1) by (simp add: compare_append f Let_def split: prod.splits)
qed

lemma example_compare_near:
  "compare_fibre example_flt example_pint example_panels example_db_near
       example_pmt_hex example_neighbour_hex example_rows ''FT001B'' = ([], None)"
  by (simp add: compare_fibre_def example_placement_other example_pmt_hex_def
      example_neighbour_hex_def example_db_near_def)

theorem validator_report_witness:
  "compare_position_calculations example_flt example_pint example_panels example_db
       [''FT001B''] example_pmt_hex example_neighbour_hex example_rows =
     ([Hashes, FibreName ''FT001B'', HostNeighbour ''S002'' ''none'', Database 102 1 0,
       Calculated 100 (1 + (hex_radius + plate_height)) 0.51], None) \<and>
   example_pmt_hex ''FT001B'' = Some ''S002'' \<and>
   example_neighbour_hex ''FT001B'' = Some ''none'' \<and>
   calc_fibre_placement example_flt example_pint example_panels example_rows ''S002'' ''none''
     = Inr (TVector3 100 (1 + (hex_radius + plate_height)) (- 0.51),
            TVector3 100 (1 + (hex_radius + plate_height)) 0.51) \<and>
   example_db ''FT001B'' ''x'' = Some 1020 \<and>
   example_db ''FT001B'' ''y'' = Some 10 \<and>
   example_db ''FT001B'' ''z'' = Some 0 \<and>
   \<bar>1020 / 10 - fX (TVector3 100 (1 + (hex_radius + plate_height)) 0.51)\<bar> > 1 \<and>
   compare_position_calculations example_flt example_pint example_panels example_db
       ([''FT001B''] @ ''FT001B'' # [''FS001'']) example_pmt_hex example_neighbour_hex example_rows =
     ([Hashes, FibreName ''FT001B'', HostNeighbour ''S002'' ''none'', Database 102 1 0,
       Calculated 100 (1 + (hex_radius + plate_height)) 0.51,
       Hashes, FibreName ''FT001B'', HostNeighbour ''S002'' ''none'', Database 102 1 0,
       Calculated 100 (1 + (hex_radius + plate_height)) 0.51], Some NameError) \<and>
   example_db_near ''FT001B'' ''x'' = Some 1005 \<and>
   \<not> \<bar>1005 / 10 - fX (TVector3 100 (1 + (hex_radius + plate_height)) 0.51)\<bar> > 1 \<and>
   compare_position_calculations example_flt example_pint example_panels example_db_near
       ([] @ ''FT001B'' # [''FT001B'']) example_pmt_hex example_neighbour_hex example_rows =
     ([], None)"
proof -
  have b: "compare_position_calculations example_flt example_pint example_panels example_db
       [''FT001B''] example_pmt_hex example_neighbour_hex example_rows =
     ([Hashes, FibreName ''FT001B'', HostNeighbour ''S002'' ''none'', Database 102 1 0,
       Calculated 100 (1 + (hex_radius + plate_height)) 0.51], None)"
    by (simp add: example_compare_FT001B)
  have b0: "compare_position_calculations example_flt example_pint example_panels example_db_near
       [] example_pmt_hex example_neighbour_hex example_rows = ([], None)"
    by simp
  have h: "example_pmt_hex ''FT001B'' = Some ''S002''" by (simp add: example_pmt_hex_def)
  have n: "example_neighbour_hex ''FT001B'' = Some ''none''" by (simp add: example_neighbour_hex_def)
  have x: "example_db ''FT001B'' ''x'' = Some 1020" by (simp add: example_db_def)
  have y: "example_db ''FT001B'' ''y'' = Some 10" by (simp add: example_db_def)
  have z: "example_db ''FT001B'' ''z'' = Some 0" by (simp add: example_db_def)
  have x': "example_db_near ''FT001B'' ''x'' = Some 1005" by (simp add: example_db_near_def)
  have y': "example_db_near ''FT001B'' ''y'' = Some 10" by (simp add: example_db_near_def)
  have z': "example_db_near ''FT001B'' ''z'' = Some 0" by (simp add: example_db_near_def)
  have ne: "''FT001B'' \<noteq> []" by simp
  have a: "compare_position_calculations example_flt example_pint example_panels example_db
       [''FS001''] example_pmt_hex example_neighbour_hex example_rows = ([], Some NameError)"
    by (simp add: example_compare_FS001)
  have a': "compare_position_calculations example_flt example_pint example_panels example_db_near
       [''FT001B''] example_pmt_hex example_neighbour_hex example_rows = ([], None)"
    by (simp add: example_compare_near)
  from validator_report [OF b h n example_placement_other x y z ne, of "[''FS001'']"]
    validator_report [OF b0 h n example_placement_other x' y' z' ne, of "[''FT001B'']"]
  show ?thesis using b h n x y z x' example_placement_other a a' by simp
qed

text \<open>
  Claim C5 as stated fails: \<^verbatim>\<open>FT001B\<close> has a recorded position whose x is 2 cm from the
  computed one, but in a run where the fibre before it has a host cell that is not in the
  table, the run ends before \<^verbatim>\<open>FT001B\<close> is compared and prints nothing.
\<close>

theorem unreached_fibre_not_reported:
  "example_pmt_hex ''FT001B'' = Some ''S002'' \<and>
   example_neighbour_hex ''FT001B'' = Some ''none'' \<and>
   calc_fibre_placement example_flt example_pint example_panels example_rows ''S002'' ''none''
     = Inr (TVector3 100 (1 + (hex_radius + plate_height)) (- 0.51),
            TVector3 100 (1 + (hex_radius + plate_height)) 0.51) \<and>
   example_db ''FT001B'' ''x'' = Some 1020 \<and>
   example_db ''FT001B'' ''y'' = Some 10 \<and>
   example_db ''FT001B'' ''z'' = Some 0 \<and>
   \<bar>1020 / 10 - fX (TVector3 100 (1 + (hex_radius + plate_height)) 0.51)\<bar> > 1 \<and>
   fst (compare_position_calculations example_flt example_pint example_panels example_db
       [''FS001'', ''FT001B''] example_pmt_hex example_neighbour_hex example_rows) = []"
proof -
  have r: "fst (compare_position_calculations example_flt example_pint example_panels example_db
       [''FS001'', ''FT001B''] example_pmt_hex example_neighbour_hex example_rows) = []"
    by (simp add: example_compare_FS001)
  show ?thesis
    using r by (simp add: example_placement_other example_pmt_hex_def example_neighbour_hex_def
        example_db_def)
qed

end
